theory Spec2Isabelle
  imports Main
begin

section \<open>The request logger of scripts/income.py\<close>

text \<open>
  The script defines one class, \<^verbatim>\<open>RequestHandler(BaseHTTPRequestHandler)\<close>, with the
  methods \<^verbatim>\<open>_set_headers\<close>, \<^verbatim>\<open>do_GET\<close> and \<^verbatim>\<open>do_POST\<close>. The three methods are embedded
  below as functions on an explicit handler state. What they call in Python's standard
  library (\<^verbatim>\<open>int\<close>, \<^verbatim>\<open>bytes.decode\<close>, \<^verbatim>\<open>headers.get\<close>, \<^verbatim>\<open>headers.items\<close>,
  \<^verbatim>\<open>rfile.read\<close>, \<^verbatim>\<open>print\<close>, \<^verbatim>\<open>send_response\<close>, \<^verbatim>\<open>send_header\<close>, \<^verbatim>\<open>end_headers\<close>,
  \<^verbatim>\<open>wfile.write\<close>) is modelled with the behaviour CPython documents for it.

  Limits of the model, stated once:
  \<^item> Python integers are unbounded and so are the model's; the limits of a platform
    (a non-negative read count that does not fit \<^verbatim>\<open>Py_ssize_t\<close>, memory exhaustion, the
    configurable cap on the digits \<^verbatim>\<open>int\<close> converts) are not modelled.
  \<^item> The transport and the console are reliable: a client that disconnects while the
    handler writes, or a console that cannot encode a character, is not modelled.
  \<^item> The response is recorded as the calls the handler makes on the response side, in
    call order. The bytes \<^verbatim>\<open>http.server\<close> makes of these calls (the status line, the
    \<^verbatim>\<open>Server\<close> and \<^verbatim>\<open>Date\<close> headers it adds by itself, nothing but the body for an
    HTTP/0.9 request line) depend on what the library knows besides the calls; they are
    computed from the calls by a function of their own, \<open>wire\<close>.
  \<^item> Only standard output is recorded; the access log and the tracebacks the library
    writes to standard error are not.
\<close>

subsection \<open>Python values\<close>

text \<open>
  \<^verbatim>\<open>bytes\<close> are lists of 8-bit characters. \<^verbatim>\<open>http.server\<close> decodes the request line and
  the header block as ISO-8859-1, so the path and the header names and values are
  strings of code points below 256: they are 8-bit character lists too. A general
  Python \<^verbatim>\<open>str\<close> (what \<^verbatim>\<open>print\<close> receives; the decoded body) is a list of Unicode code
  points.
\<close>

type_synonym bytes = "char list"
type_synonym str = "nat list"

definition latin1 :: "string \<Rightarrow> str" where
  "latin1 s = map of_char s"

datatype exn = ValueError | UnicodeDecodeError | OverflowError

text \<open>The argument of \<^verbatim>\<open>int(...)\<close> in \<^verbatim>\<open>do_POST\<close> is a header value or the default \<^verbatim>\<open>0\<close>.\<close>

datatype pyval = PyStr string | PyInt int

subsection \<open>\<^verbatim>\<open>int\<close> of a string\<close>

text \<open>
  \<^verbatim>\<open>int(s)\<close> for a string of code points below 256: white space is stripped on both
  sides; one sign may follow; then come decimal digits, where single underscores may
  stand between digits. Anything else raises \<^verbatim>\<open>ValueError\<close>. The white space \<^verbatim>\<open>int\<close>
  accepts is tab, line feed, vertical tab, form feed, carriage return and space, and
  of the code points from 128 to 255 the two Unicode spaces U+0085 and U+00A0. The only
  decimal digits below 256 are \<^verbatim>\<open>0\<close> to \<^verbatim>\<open>9\<close>.
\<close>

definition is_space :: "char \<Rightarrow> bool" where
  "is_space c \<longleftrightarrow> (let n = (of_char c :: nat) in (9 \<le> n \<and> n \<le> 13) \<or> n = 32 \<or> n = 133 \<or> n = 160)"

definition is_digit :: "char \<Rightarrow> bool" where
  "is_digit c \<longleftrightarrow> 48 \<le> (of_char c :: nat) \<and> (of_char c :: nat) \<le> 57"

definition digit_value :: "char \<Rightarrow> int" where
  "digit_value c = int (of_char c) - 48"

text \<open>No two underscores side by side.\<close>

fun single_underscores :: "string \<Rightarrow> bool" where
  "single_underscores (a # b # cs) =
     (if a = CHR ''_'' \<and> b = CHR ''_'' then False else single_underscores (b # cs))"
| "single_underscores cs = True"

text \<open>
  The digits part: not empty, no underscore first or last, no two underscores in a row.
  Its value is read off the digits from the left.
\<close>

definition digits_ok :: "string \<Rightarrow> bool" where
  "digits_ok ds \<longleftrightarrow>
     ds \<noteq> [] \<and> hd ds \<noteq> CHR ''_'' \<and> last ds \<noteq> CHR ''_'' \<and> single_underscores ds"

definition digits_value :: "string \<Rightarrow> int" where
  "digits_value ds = foldl (\<lambda>acc c. acc * 10 + digit_value c) 0 (filter is_digit ds)"

definition int_of_unsigned :: "string \<Rightarrow> exn + int" where
  "int_of_unsigned s =
     (let ds = takeWhile (\<lambda>c. is_digit c \<or> c = CHR ''_'') s;
          rest = dropWhile (\<lambda>c. is_digit c \<or> c = CHR ''_'') s
      in if digits_ok ds \<and> dropWhile is_space rest = [] then Inr (digits_value ds)
         else Inl ValueError)"

definition int_of_str :: "string \<Rightarrow> exn + int" where
  "int_of_str s =
     (case dropWhile is_space s of
        [] \<Rightarrow> Inl ValueError
      | c # cs \<Rightarrow>
          if c = CHR ''-'' then map_sum id uminus (int_of_unsigned cs)
          else if c = CHR ''+'' then int_of_unsigned cs
          else int_of_unsigned (c # cs))"

fun py_int :: "pyval \<Rightarrow> exn + int" where
  "py_int (PyInt n) = Inr n"
| "py_int (PyStr s) = int_of_str s"

subsection \<open>\<^verbatim>\<open>bytes.decode('utf-8')\<close>\<close>

text \<open>
  Strict UTF-8: a lead byte announces one to four bytes; the bytes after it must be
  continuation bytes (\<^verbatim>\<open>0x80\<close> to \<^verbatim>\<open>0xBF\<close>); the code point must need that many bytes
  (no overlong form), must not be a surrogate and must not exceed U+10FFFF. The first
  violation raises \<^verbatim>\<open>UnicodeDecodeError\<close>, here \<open>None\<close>.
\<close>

definition is_continuation :: "char \<Rightarrow> bool" where
  "is_continuation c \<longleftrightarrow> 128 \<le> (of_char c :: nat) \<and> (of_char c :: nat) \<le> 191"

definition payload :: "char \<Rightarrow> nat" where
  "payload c = of_char c - 128"

text \<open>The first code point of a byte string and the number of bytes it takes.\<close>

fun decode_one :: "bytes \<Rightarrow> (nat \<times> nat) option" where
  "decode_one [] = None"
| "decode_one (b # bs) =
     (let n = (of_char b :: nat) in
      if n < 128 then Some (n, 1)
      else if 192 \<le> n \<and> n < 224 then
        (case bs of
           b1 # _ \<Rightarrow>
             (let cp = (n - 192) * 64 + payload b1 in
              if is_continuation b1 \<and> 128 \<le> cp then Some (cp, 2) else None)
         | _ \<Rightarrow> None)
      else if 224 \<le> n \<and> n < 240 then
        (case bs of
           b1 # b2 # _ \<Rightarrow>
             (let cp = (n - 224) * 4096 + payload b1 * 64 + payload b2 in
              if is_continuation b1 \<and> is_continuation b2 \<and> 2048 \<le> cp
                 \<and> (cp < 55296 \<or> 57343 < cp)
              then Some (cp, 3) else None)
         | _ \<Rightarrow> None)
      else if 240 \<le> n \<and> n < 248 then
        (case bs of
           b1 # b2 # b3 # _ \<Rightarrow>
             (let cp = (n - 240) * 262144 + payload b1 * 4096 + payload b2 * 64 + payload b3 in
              if is_continuation b1 \<and> is_continuation b2 \<and> is_continuation b3
                 \<and> 65536 \<le> cp \<and> cp \<le> 1114111
              then Some (cp, 4) else None)
         | _ \<Rightarrow> None)
      else None)"

fun decode_utf8 :: "bytes \<Rightarrow> str option" where
  "decode_utf8 [] = Some []"
| "decode_utf8 (b # bs) =
     (case decode_one (b # bs) of
        None \<Rightarrow> None
      | Some (cp, k) \<Rightarrow> map_option ((#) cp) (decode_utf8 (drop (k - 1) bs)))"

subsection \<open>The handler state\<close>

text \<open>
  What a handler instance holds when \<^verbatim>\<open>http.server\<close> calls \<^verbatim>\<open>do_GET\<close> or \<^verbatim>\<open>do_POST\<close>, and
  the two outputs:
  \<^item> \<open>path\<close> and \<open>headers\<close>: the parsed request. \<open>headers\<close> is the list of name/value
    pairs of the message object, in the order of the header block, a repeated name being
    two entries;
  \<^item> \<open>rfile\<close>: the bytes of the connection after the header block that have not been
    read yet, and \<open>rfile_eof\<close>: whether the client closes its sending side after them
    (otherwise the connection stays open and silent);
  \<^item> \<open>stdout\<close>: the arguments of the \<^verbatim>\<open>print\<close> calls so far, one entry per call;
  \<^item> \<open>response\<close>: the calls made on the response side so far.
\<close>

datatype sent =
  Send_response nat
| Send_header string string
| End_headers
| Wfile_write bytes

record handler =
  path :: string
  headers :: "(string \<times> string) list"
  rfile :: bytes
  rfile_eof :: bool
  stdout :: "str list"
  response :: "sent list"

text \<open>A method returns, raises, or never comes back from a read.\<close>

datatype outcome = Returned | Raised exn | Blocked

subsection \<open>Library calls\<close>

text \<open>\<^verbatim>\<open>print(x)\<close> writes \<open>x\<close> and a line feed; the console keeps one entry per call.\<close>

definition print :: "str \<Rightarrow> handler \<Rightarrow> handler" where
  "print x self = self\<lparr>stdout := stdout self @ [x]\<rparr>"

text \<open>The text that reaches the console: every entry followed by a line feed.\<close>

definition console_text :: "str list \<Rightarrow> str" where
  "console_text out = concat (map (\<lambda>x. x @ [10]) out)"

definition send_response :: "nat \<Rightarrow> handler \<Rightarrow> handler" where
  "send_response code self = self\<lparr>response := response self @ [Send_response code]\<rparr>"

definition send_header :: "string \<Rightarrow> string \<Rightarrow> handler \<Rightarrow> handler" where
  "send_header keyword v self = self\<lparr>response := response self @ [Send_header keyword v]\<rparr>"

definition end_headers :: "handler \<Rightarrow> handler" where
  "end_headers self = self\<lparr>response := response self @ [End_headers]\<rparr>"

definition wfile_write :: "bytes \<Rightarrow> handler \<Rightarrow> handler" where
  "wfile_write b self = self\<lparr>response := response self @ [Wfile_write b]\<rparr>"

text \<open>
  \<^verbatim>\<open>str.lower\<close> on code points below 256: the letters \<^verbatim>\<open>A\<close> to \<^verbatim>\<open>Z\<close> and the capital letters
  U+00C0 to U+00DE (U+00D7, the multiplication sign, is not one) move up by 32.
\<close>

definition lower_char :: "char \<Rightarrow> char" where
  "lower_char c =
     (let n = (of_char c :: nat) in
      if (65 \<le> n \<and> n \<le> 90) \<or> (192 \<le> n \<and> n \<le> 222 \<and> n \<noteq> 215) then char_of (n + 32) else c)"

definition lower :: "string \<Rightarrow> string" where
  "lower s = map lower_char s"

text \<open>
  \<^verbatim>\<open>headers.get(name, failobj)\<close>: the value of the first header whose name equals \<open>name\<close>
  up to case, and \<open>failobj\<close> when there is none.
\<close>

fun headers_get :: "(string \<times> string) list \<Rightarrow> string \<Rightarrow> pyval \<Rightarrow> pyval" where
  "headers_get [] name failobj = failobj"
| "headers_get ((k, v) # hs) name failobj =
     (if lower k = lower name then PyStr v else headers_get hs name failobj)"

text \<open>
  \<^verbatim>\<open>rfile.read(n)\<close> on the buffered reader of a blocking socket. With \<open>n \<ge> 0\<close> it returns
  \<open>n\<close> bytes as soon as it has them; when the stream ends before, it returns what there
  was; when the stream neither delivers \<open>n\<close> bytes nor ends, it never returns. With
  \<open>n = -1\<close> it reads until the stream ends. Any count below \<open>-1\<close> is refused before
  anything is read: with \<^verbatim>\<open>ValueError\<close> (\<^verbatim>\<open>read length must be non-negative or -1\<close>), and
  with \<^verbatim>\<open>OverflowError\<close> when it is below the smallest \<^verbatim>\<open>Py_ssize_t\<close> (of a 64-bit build)
  and cannot be handed to the reader at all.
\<close>

datatype 'a io = Done 'a | Fails exn | Never

definition ssize_t_min :: int where
  "ssize_t_min = - (2 ^ 63)"

definition rfile_read :: "int \<Rightarrow> handler \<Rightarrow> (bytes \<times> handler) io" where
  "rfile_read n self =
     (if n < ssize_t_min then Fails OverflowError
      else if n < - 1 then Fails ValueError
      else if 0 \<le> n \<and> nat n \<le> length (rfile self)
      then Done (take (nat n) (rfile self), self\<lparr>rfile := drop (nat n) (rfile self)\<rparr>)
      else if rfile_eof self then Done (rfile self, self\<lparr>rfile := []\<rparr>)
      else Never)"

subsection \<open>The methods of \<^verbatim>\<open>RequestHandler\<close>\<close>

definition set_headers :: "handler \<Rightarrow> handler" where
  "set_headers self =
     end_headers (send_header ''Content-type'' ''text/plain'' (send_response 200 self))"

text \<open>The line \<^verbatim>\<open>print(f"  {header}: {value}")\<close> of both loops.\<close>

definition header_line :: "string \<times> string \<Rightarrow> str" where
  "header_line hv = latin1 ''  '' @ latin1 (fst hv) @ latin1 '': '' @ latin1 (snd hv)"

definition do_GET :: "handler \<Rightarrow> outcome \<times> handler" where
  "do_GET self =
     (let s1 = print (10 # latin1 ''===== GET REQUEST ======'') self;
          s2 = print (latin1 ''Path: '' @ latin1 (path s1)) s1;
          s3 = print (latin1 ''Headers:'') s2;
          s4 = fold (\<lambda>(header, v). print (header_line (header, v))) (headers s3) s3;
          s5 = set_headers s4;
          s6 = wfile_write ''GET request received'' s5
      in (Returned, s6))"

definition do_POST :: "handler \<Rightarrow> outcome \<times> handler" where
  "do_POST self =
     (case py_int (headers_get (headers self) ''Content-Length'' (PyInt 0)) of
        Inl e \<Rightarrow> (Raised e, self)
      | Inr content_length \<Rightarrow>
          (case rfile_read content_length self of
             Fails e \<Rightarrow> (Raised e, self)
           | Never \<Rightarrow> (Blocked, self)
           | Done (post_data, s0) \<Rightarrow>
               (let s1 = print (10 # latin1 ''===== POST REQUEST ======'') s0;
                    s2 = print (latin1 ''Path: '' @ latin1 (path s1)) s1;
                    s3 = print (latin1 ''Headers:'') s2;
                    s4 = fold (\<lambda>(header, v). print (header_line (header, v))) (headers s3) s3
                in case decode_utf8 post_data of
                     None \<Rightarrow> (Raised UnicodeDecodeError, s4)
                   | Some body \<Rightarrow>
                       (let s5 = print (latin1 ''Body:'' @ 10 # body) s4;
                            s6 = set_headers s5;
                            s7 = wfile_write ''POST request received'' s6
                        in (Returned, s7)))))"

subsection \<open>Dispatch and the server loop\<close>

text \<open>
  \<^verbatim>\<open>run\<close> builds an \<^verbatim>\<open>HTTPServer\<close> with this handler class and calls \<^verbatim>\<open>serve_forever\<close>.
  For each connection the library parses the request and calls the method named after
  the request's command. The handler class defines the two below; what the library
  answers to any other command is not part of the script.
\<close>

datatype command = GET | POST

definition handle_one_request :: "command \<Rightarrow> handler \<Rightarrow> outcome \<times> handler" where
  "handle_one_request c self = (case c of GET \<Rightarrow> do_GET self | POST \<Rightarrow> do_POST self)"

text \<open>
  The loop of \<^verbatim>\<open>socketserver\<close> takes one connection after the other. It calls the handler
  inside \<^verbatim>\<open>try: ... except Exception:\<close>, reports what was raised on standard error,
  closes the connection and goes on with the next one. The server has one thread: a
  handler that never returns from a read keeps the loop from ever reaching the next
  connection. Each connection comes with its handler instance as the library sets it
  up; the console is the process's and is handed from one request to the next.
\<close>

record served =
  console :: "str list"
  answers :: "sent list list"
  stuck :: bool

fun serve_forever :: "(command \<times> handler) list \<Rightarrow> str list \<Rightarrow> served" where
  "serve_forever [] out = \<lparr>console = out, answers = [], stuck = False\<rparr>"
| "serve_forever ((c, h) # rest) out =
     (let (result, h') = handle_one_request c (h\<lparr>stdout := out\<rparr>) in
      if result = Blocked
      then \<lparr>console = stdout h', answers = [response h'], stuck = True\<rparr>
      else (let r = serve_forever rest (stdout h') in r\<lparr>answers := response h' # answers r\<rparr>))"

subsection \<open>Reading a run\<close>

text \<open>
  What a call added to the response, and what it took from the input stream, read off
  the states before and after the call.
\<close>

definition answer :: "handler \<Rightarrow> handler \<Rightarrow> sent list" where
  "answer before after = drop (length (response before)) (response after)"

definition consumed :: "handler \<Rightarrow> handler \<Rightarrow> bytes" where
  "consumed before after = take (length (rfile before) - length (rfile after)) (rfile before)"

text \<open>
  The status codes, a header looked up as a client does (header names compare up to
  case) and the body of a recorded response.
\<close>

fun status_codes :: "sent list \<Rightarrow> nat list" where
  "status_codes [] = []"
| "status_codes (Send_response code # cs) = code # status_codes cs"
| "status_codes (_ # cs) = status_codes cs"

fun header_value :: "string \<Rightarrow> sent list \<Rightarrow> string option" where
  "header_value name [] = None"
| "header_value name (Send_header k v # cs) =
     (if lower k = lower name then Some v else header_value name cs)"
| "header_value name (_ # cs) = header_value name cs"

fun body_bytes :: "sent list \<Rightarrow> bytes" where
  "body_bytes [] = []"
| "body_bytes (Wfile_write b # cs) = b @ body_bytes cs"
| "body_bytes (_ # cs) = body_bytes cs"

subsection \<open>From the calls to the bytes on the wire\<close>











section \<open>Properties\<close>

subsection \<open>Evaluating the library functions\<close>

text \<open>
  Unfolding sets for evaluating the library functions on concrete requests.
\<close>

lemmas int_defs = int_of_str_def int_of_unsigned_def is_space_def is_digit_def digits_ok_def
  digits_value_def digit_value_def

lemmas utf8_defs = is_continuation_def payload_def

lemmas send_defs = set_headers_def send_response_def send_header_def end_headers_def
  wfile_write_def

text \<open>Comparing lower-cased header names comes down to comparing character codes.\<close>

lemma char_eq_char_of: "c = char_of (n :: nat) \<longleftrightarrow> take_bit 8 n = of_char c"
  using char_of_eq_iff[of n c] by auto

lemmas lower_defs = lower_def lower_char_def char_of_eq_iff char_eq_char_of

lemma lower_content_length: "lower ''Content-Length'' = ''content-length''"
  by (simp add: lower_defs)

lemma lower_content_type:
  "lower ''Content-type'' = ''content-type''" "lower ''Content-Type'' = ''content-type''"
  by (simp_all add: lower_def lower_char_def char_of_eq_iff)

text \<open>
  Everything needed to run \<^verbatim>\<open>do_POST\<close> on a concrete request.
\<close>

lemmas run_defs = do_POST_def int_defs utf8_defs lower_defs rfile_read_def Let_def print_def
  header_line_def latin1_def send_defs

subsection \<open>What the methods compute\<close>

text \<open>The header loop prints one line per entry of the header list, in its order.\<close>

lemma fold_print:
  "fold (\<lambda>(header, v). print (header_line (header, v))) hs s
     = s\<lparr>stdout := stdout s @ map header_line hs\<rparr>"
  by (induction hs arbitrary: s) (simp_all add: print_def)

text \<open>The only exception \<^verbatim>\<open>int\<close> raises on these arguments is \<^verbatim>\<open>ValueError\<close>.\<close>

lemma int_of_unsigned_error: "int_of_unsigned s = Inl e \<Longrightarrow> e = ValueError"
  by (simp add: int_of_unsigned_def Let_def split: if_splits)

lemma int_of_str_error: "int_of_str s = Inl e \<Longrightarrow> e = ValueError"
proof (cases "dropWhile is_space s")
  case Nil
  assume "int_of_str s = Inl e"
  with Nil show ?thesis by (simp add: int_of_str_def del: dropWhile_eq_Nil_conv)
next
  case (Cons c cs)
  assume err: "int_of_str s = Inl e"
  show ?thesis
  proof (cases "c = CHR ''-''")
    case True
    with Cons err have "map_sum id uminus (int_of_unsigned cs) = Inl e"
      by (simp add: int_of_str_def)
    then have "int_of_unsigned cs = Inl e"
      by (cases "int_of_unsigned cs") simp_all
    then show ?thesis by (rule int_of_unsigned_error)
  next
    case False
    with Cons err have "int_of_unsigned cs = Inl e \<or> int_of_unsigned (c # cs) = Inl e"
      by (simp add: int_of_str_def split: if_splits)
    then show ?thesis by (auto dest: int_of_unsigned_error)
  qed
qed

lemma py_int_error: "py_int v = Inl e \<Longrightarrow> e = ValueError"
  by (cases v) (auto dest: int_of_str_error)

lemma int_of_str_zero: "int_of_str ''0'' = Inr 0"
  by (simp add: int_defs)

text \<open>
  \<^verbatim>\<open>headers.get\<close> returns the default when no header has the name, up to case.
\<close>

lemma headers_get_missing:
  "lower name \<notin> set (map (lower \<circ> fst) hs) \<Longrightarrow> headers_get hs name failobj = failobj"
  by (induction hs) auto

text \<open>\<^verbatim>\<open>do_GET\<close> always returns; its effect in full.\<close>

lemma do_GET_eq:
  "do_GET self = (Returned, self\<lparr>stdout := stdout self @
       [10 # latin1 ''===== GET REQUEST ======'', latin1 ''Path: '' @ latin1 (path self),
        latin1 ''Headers:''] @ map header_line (headers self),
     response := response self @ [Send_response 200, Send_header ''Content-type'' ''text/plain'',
        End_headers, Wfile_write ''GET request received'']\<rparr>)"
  by (simp add: do_GET_def Let_def fold_print print_def set_headers_def send_response_def
      send_header_def end_headers_def wfile_write_def)

text \<open>A count from \<open>-1\<close> upwards fits the reader's argument.\<close>

lemma not_below_ssize_t_min [simp]: "- 1 \<le> n \<Longrightarrow> \<not> n < ssize_t_min"
  by (simp add: ssize_t_min_def)

text \<open>A read that returns takes a prefix off the stream and touches nothing else.\<close>

lemma rfile_read_Done:
  assumes "rfile_read n self = Done (d, s0)"
  shows "s0 = self\<lparr>rfile := drop (length d) (rfile self)\<rparr>" and "rfile self = d @ rfile s0"
  using assms by (auto simp: rfile_read_def split: if_splits)

lemma rfile_read_stdout:
  "rfile_read n self = Done (d, s0) \<Longrightarrow>
   rfile_read n (self\<lparr>stdout := out\<rparr>) = Done (d, s0\<lparr>stdout := out\<rparr>)"
  by (auto simp: rfile_read_def split: if_splits)

lemma rfile_read_zero: "rfile_read 0 self = Done ([], self)"
  by (simp add: rfile_read_def)

lemma consumed_read:
  "rfile_read n self = Done (d, s0) \<Longrightarrow> rfile s' = rfile s0 \<Longrightarrow> consumed self s' = d"
  by (auto simp: rfile_read_def consumed_def split: if_splits)

text \<open>
  The five ways \<^verbatim>\<open>do_POST\<close> can go: \<^verbatim>\<open>int\<close> raises; the read refuses the count; the
  read never returns; the bytes read do not decode; the method returns.
\<close>

lemma do_POST_int_error:
  "py_int (headers_get (headers self) ''Content-Length'' (PyInt 0)) = Inl e \<Longrightarrow>
   do_POST self = (Raised ValueError, self)"
  by (frule py_int_error) (simp add: do_POST_def)

lemma do_POST_read_error:
  "py_int (headers_get (headers self) ''Content-Length'' (PyInt 0)) = Inr n \<Longrightarrow>
   rfile_read n self = Fails e \<Longrightarrow> do_POST self = (Raised e, self)"
  by (simp add: do_POST_def)

lemma do_POST_blocked:
  "py_int (headers_get (headers self) ''Content-Length'' (PyInt 0)) = Inr n \<Longrightarrow>
   rfile_read n self = Never \<Longrightarrow> do_POST self = (Blocked, self)"
  by (simp add: do_POST_def)

lemma do_POST_decode_error:
  assumes "py_int (headers_get (headers self) ''Content-Length'' (PyInt 0)) = Inr n"
    and "rfile_read n self = Done (d, s0)"
    and "decode_utf8 d = None"
  shows "do_POST self = (Raised UnicodeDecodeError, s0\<lparr>stdout := stdout self @
       [10 # latin1 ''===== POST REQUEST ======'', latin1 ''Path: '' @ latin1 (path self),
        latin1 ''Headers:''] @ map header_line (headers self)\<rparr>)"
  using assms rfile_read_Done(1)[OF assms(2)]
  by (simp add: do_POST_def Let_def fold_print print_def)

lemma do_POST_returned:
  assumes "py_int (headers_get (headers self) ''Content-Length'' (PyInt 0)) = Inr n"
    and "rfile_read n self = Done (d, s0)"
    and "decode_utf8 d = Some body"
  shows "do_POST self = (Returned, s0\<lparr>stdout := stdout self @
       [10 # latin1 ''===== POST REQUEST ======'', latin1 ''Path: '' @ latin1 (path self),
        latin1 ''Headers:''] @ map header_line (headers self) @ [latin1 ''Body:'' @ 10 # body],
     response := response self @ [Send_response 200, Send_header ''Content-type'' ''text/plain'',
        End_headers, Wfile_write ''POST request received'']\<rparr>)"
  using assms rfile_read_Done(1)[OF assms(2)]
  by (simp add: do_POST_def Let_def fold_print print_def set_headers_def send_response_def
      send_header_def end_headers_def wfile_write_def)

lemma do_POST_zero_length:
  assumes "py_int (headers_get (headers self) ''Content-Length'' (PyInt 0)) = Inr 0"
  shows "do_POST self = (Returned, self\<lparr>stdout := stdout self @
       [10 # latin1 ''===== POST REQUEST ======'', latin1 ''Path: '' @ latin1 (path self),
        latin1 ''Headers:''] @ map header_line (headers self) @ [latin1 ''Body:'' @ [10]],
     response := response self @ [Send_response 200, Send_header ''Content-type'' ''text/plain'',
        End_headers, Wfile_write ''POST request received'']\<rparr>)"
  using do_POST_returned[OF assms rfile_read_zero, of "[]"] by simp

text \<open>Every run of \<^verbatim>\<open>do_POST\<close> is one of the five above.\<close>

lemma do_POST_cases:
  obtains
    (int_error) e where "py_int (headers_get (headers self) ''Content-Length'' (PyInt 0)) = Inl e"
  | (read_error) n e where "py_int (headers_get (headers self) ''Content-Length'' (PyInt 0)) = Inr n"
      "rfile_read n self = Fails e"
  | (blocked) n where "py_int (headers_get (headers self) ''Content-Length'' (PyInt 0)) = Inr n"
      "rfile_read n self = Never"
  | (decode_error) n d s0 where "py_int (headers_get (headers self) ''Content-Length'' (PyInt 0)) = Inr n"
      "rfile_read n self = Done (d, s0)" "decode_utf8 d = None"
  | (returned) n d s0 body where "py_int (headers_get (headers self) ''Content-Length'' (PyInt 0)) = Inr n"
      "rfile_read n self = Done (d, s0)" "decode_utf8 d = Some body"
proof (cases "py_int (headers_get (headers self) ''Content-Length'' (PyInt 0))")
  case (Inl e)
  then show ?thesis by (rule int_error)
next
  case (Inr n)
  show ?thesis
  proof (cases "rfile_read n self")
    case (Fails e)
    with Inr show ?thesis by (rule read_error)
  next
    case Never
    with Inr show ?thesis by (rule blocked)
  next
    case (Done p)
    obtain d s0 where p: "p = (d, s0)" by (cases p)
    show ?thesis
    proof (cases "decode_utf8 d")
      case None
      with Inr Done p show ?thesis by (auto intro: decode_error)
    next
      case (Some body)
      with Inr Done p show ?thesis by (auto intro: returned)
    qed
  qed
qed

text \<open>
  The header lines sit behind the three opening lines of a request's block.
\<close>

lemma nth_after_three:
  "i < length M \<Longrightarrow> (A @ [x, y, z] @ M @ R) ! (length A + 3 + i) = M ! i"
  by (simp add: nth_append)

lemma header_lines_of_log:
  assumes "out = A @ [x, y, z] @ map header_line hs @ R"
  shows "take (length hs) (drop (length A + 3) out) = map header_line hs
    \<and> (\<forall>i<length hs. out ! (length A + 3 + i)
          = latin1 ''  '' @ latin1 (fst (hs ! i)) @ latin1 '': '' @ latin1 (snd (hs ! i)))"
proof -
  have "\<forall>i<length hs. out ! (length A + 3 + i) = header_line (hs ! i)"
    using nth_after_three[of _ "map header_line hs" A x y z R] assms by simp
  then show ?thesis
    using assms by (simp add: header_line_def)
qed

section \<open>The claims\<close>

text \<open>
  C1. Every GET request, whatever its path and headers, is answered with status 200,
  the header \<^verbatim>\<open>Content-type: text/plain\<close> (which a client reads as \<^verbatim>\<open>Content-Type\<close>,
  header names being compared up to case) and exactly the body
  \<^verbatim>\<open>GET request received\<close>; the method always returns.
\<close>

theorem do_GET_answer:
  "fst (do_GET self) = Returned
   \<and> response (snd (do_GET self)) = response self @
        [Send_response 200, Send_header ''Content-type'' ''text/plain'', End_headers,
         Wfile_write ''GET request received'']
   \<and> status_codes (answer self (snd (do_GET self))) = [200]
   \<and> header_value ''Content-Type'' (answer self (snd (do_GET self))) = Some ''text/plain''
   \<and> body_bytes (answer self (snd (do_GET self))) = ''GET request received''"
  by (simp add: do_GET_eq answer_def lower_content_type)

text \<open>The request \<^verbatim>\<open>GET /status\<close> with the header \<^verbatim>\<open>X-Test: 1\<close>.\<close>

theorem do_GET_answer_witness:
  "do_GET \<lparr>path = ''/status'', headers = [(''X-Test'', ''1'')], rfile = [], rfile_eof = False,
       stdout = [], response = []\<rparr>
     = (Returned, \<lparr>path = ''/status'', headers = [(''X-Test'', ''1'')], rfile = [],
          rfile_eof = False,
          stdout = [10 # latin1 ''===== GET REQUEST ======'', latin1 ''Path: /status'',
                    latin1 ''Headers:'', latin1 ''  X-Test: 1''],
          response = [Send_response 200, Send_header ''Content-type'' ''text/plain'',
                      End_headers, Wfile_write ''GET request received'']\<rparr>)
   \<and> header_value ''Content-Type'' (response (snd (do_GET \<lparr>path = ''/status'',
         headers = [(''X-Test'', ''1'')], rfile = [], rfile_eof = False, stdout = [],
         response = []\<rparr>))) = Some ''text/plain''"
  using do_GET_answer[of "\<lparr>path = ''/status'', headers = [(''X-Test'', ''1'')], rfile = [],
       rfile_eof = False, stdout = [], response = []\<rparr>"]
  by (simp add: do_GET_eq answer_def header_line_def latin1_def)

text \<open>
  C2. A POST request whose stream starts with the body \<open>B\<close>, whose \<^verbatim>\<open>Content-Length\<close>
  header converts to the length of \<open>B\<close> and whose body is UTF-8: the method reads
  exactly \<open>B\<close>, the last thing it prints is \<^verbatim>\<open>Body:\<close>, a line feed and \<open>B\<close> decoded, and
  the body of the response is exactly \<^verbatim>\<open>POST request received\<close>.
\<close>

theorem do_POST_logs_body:
  assumes "py_int (headers_get (headers self) ''Content-Length'' (PyInt 0)) = Inr (int (length B))"
    and "rfile self = B @ later"
    and "decode_utf8 B = Some text"
  shows "fst (do_POST self) = Returned
    \<and> consumed self (snd (do_POST self)) = B
    \<and> last (stdout (snd (do_POST self))) = latin1 ''Body:'' @ 10 # text
    \<and> body_bytes (answer self (snd (do_POST self))) = ''POST request received''"
proof -
  have rd: "rfile_read (int (length B)) self = Done (B, self\<lparr>rfile := later\<rparr>)"
    using assms(2) by (simp add: rfile_read_def)
  show ?thesis
    using assms(2) by (simp add: do_POST_returned[OF assms(1) rd assms(3)] answer_def consumed_def)
qed

text \<open>The request \<^verbatim>\<open>POST /webhook\<close> with the seven bytes \<^verbatim>\<open>{"a":1}\<close>.\<close>

theorem do_POST_logs_body_witness:
  \<open>py_int (headers_get [(''Content-Length'', ''7'')] ''Content-Length'' (PyInt 0)) = Inr (int (length ''{"a":1}''))
   \<and> decode_utf8 ''{"a":1}'' = Some (latin1 ''{"a":1}'')
   \<and> fst (do_POST \<lparr>path = ''/webhook'', headers = [(''Content-Length'', ''7'')],
          rfile = ''{"a":1}'', rfile_eof = False, stdout = [], response = []\<rparr>) = Returned
   \<and> last (stdout (snd (do_POST \<lparr>path = ''/webhook'', headers = [(''Content-Length'', ''7'')],
          rfile = ''{"a":1}'', rfile_eof = False, stdout = [], response = []\<rparr>)))
        = latin1 ''Body:'' @ 10 # latin1 ''{"a":1}''
   \<and> body_bytes (answer \<lparr>path = ''/webhook'', headers = [(''Content-Length'', ''7'')],
          rfile = ''{"a":1}'', rfile_eof = False, stdout = [], response = []\<rparr>
        (snd (do_POST \<lparr>path = ''/webhook'', headers = [(''Content-Length'', ''7'')],
          rfile = ''{"a":1}'', rfile_eof = False, stdout = [], response = []\<rparr>)))
        = ''POST request received''\<close>
proof -
  have cl: \<open>py_int (headers_get (headers \<lparr>path = ''/webhook'', headers = [(''Content-Length'', ''7'')],
          rfile = ''{"a":1}'', rfile_eof = False, stdout = [], response = []\<rparr>)
        ''Content-Length'' (PyInt 0)) = Inr (int (length ''{"a":1}''))\<close>
    by (simp add: int_of_str_def int_of_unsigned_def is_space_def is_digit_def digits_ok_def
        digits_value_def digit_value_def)
  have dec: \<open>decode_utf8 ''{"a":1}'' = Some (latin1 ''{"a":1}'')\<close>
    by (simp add: latin1_def)
  have rf: \<open>rfile \<lparr>path = ''/webhook'', headers = [(''Content-Length'', ''7'')],
          rfile = ''{"a":1}'', rfile_eof = False, stdout = [], response = []\<rparr> = ''{"a":1}'' @ []\<close>
    by simp
  show ?thesis
    using do_POST_logs_body[OF cl rf dec] cl dec by simp
qed

text \<open>
  C3, as the code has it. When \<^verbatim>\<open>int\<close> rejects the value of the \<^verbatim>\<open>Content-Length\<close> header,
  \<^verbatim>\<open>do_POST\<close> raises \<^verbatim>\<open>ValueError\<close> at its first statement: no byte is read, nothing is
  printed and nothing is sent; the request is not treated as one with an empty body (the
  default \<^verbatim>\<open>0\<close> stands in for a missing header only). The failure is not fatal for the
  listener: the server loop records the untouched response for this connection and
  serves the following connections as before.
\<close>

theorem malformed_content_length_raises:
  assumes "py_int (headers_get (headers self) ''Content-Length'' (PyInt 0)) = Inl e"
  shows "do_POST self = (Raised ValueError, self)
    \<and> serve_forever ((POST, self) # rest) out =
        (serve_forever rest out)\<lparr>answers := response self # answers (serve_forever rest out)\<rparr>"
proof -
  have "py_int (headers_get (headers (self\<lparr>stdout := out\<rparr>)) ''Content-Length'' (PyInt 0)) = Inl e"
    using assms by simp
  then have "handle_one_request POST (self\<lparr>stdout := out\<rparr>) = (Raised ValueError, self\<lparr>stdout := out\<rparr>)"
    by (simp add: handle_one_request_def do_POST_int_error)
  then have "serve_forever ((POST, self) # rest) out =
        (serve_forever rest out)\<lparr>answers := response self # answers (serve_forever rest out)\<rparr>"
    by (simp add: Let_def)
  with do_POST_int_error[OF assms] show ?thesis by simp
qed

text \<open>
  A POST with \<^verbatim>\<open>Content-Length: abc\<close>, followed on the next connection by a GET, which is
  answered.
\<close>

theorem malformed_content_length_raises_witness:
  "py_int (headers_get [(''Content-Length'', ''abc'')] ''Content-Length'' (PyInt 0)) = Inl ValueError
   \<and> do_POST \<lparr>path = ''/'', headers = [(''Content-Length'', ''abc'')], rfile = ''xyz'',
         rfile_eof = True, stdout = [], response = []\<rparr>
       = (Raised ValueError, \<lparr>path = ''/'', headers = [(''Content-Length'', ''abc'')],
            rfile = ''xyz'', rfile_eof = True, stdout = [], response = []\<rparr>)
   \<and> answers (serve_forever
         [(POST, \<lparr>path = ''/'', headers = [(''Content-Length'', ''abc'')], rfile = ''xyz'',
             rfile_eof = True, stdout = [], response = []\<rparr>),
          (GET, \<lparr>path = ''/status'', headers = [], rfile = [], rfile_eof = False, stdout = [],
             response = []\<rparr>)] [])
       = [[], [Send_response 200, Send_header ''Content-type'' ''text/plain'', End_headers,
               Wfile_write ''GET request received'']]"
proof -
  have bad: "py_int (headers_get (headers \<lparr>path = ''/'', headers = [(''Content-Length'', ''abc'')],
      rfile = ''xyz'', rfile_eof = True, stdout = [], response = []\<rparr>) ''Content-Length'' (PyInt 0))
      = Inl ValueError"
    by (simp add: int_defs)
  show ?thesis
    using malformed_content_length_raises[OF bad, of
        "[(GET, \<lparr>path = ''/status'', headers = [], rfile = [], rfile_eof = False, stdout = [],
             response = []\<rparr>)]" "[]"] bad
    by (simp add: handle_one_request_def do_GET_eq Let_def)
qed

text \<open>
  The claim as written fails: with \<^verbatim>\<open>Content-Length: abc\<close> the method raises and leaves
  console and response empty, whereas the same request with \<^verbatim>\<open>Content-Length: 0\<close> is
  logged with an empty body and answered.
\<close>

theorem malformed_content_length_counterexample:
  "py_int (headers_get [(''Content-Length'', ''abc'')] ''Content-Length'' (PyInt 0)) = Inl ValueError
   \<and> do_POST \<lparr>path = ''/'', headers = [(''Content-Length'', ''abc'')], rfile = [],
         rfile_eof = True, stdout = [], response = []\<rparr>
       = (Raised ValueError, \<lparr>path = ''/'', headers = [(''Content-Length'', ''abc'')],
            rfile = [], rfile_eof = True, stdout = [], response = []\<rparr>)
   \<and> do_POST \<lparr>path = ''/'', headers = [(''Content-Length'', ''0'')], rfile = [],
         rfile_eof = True, stdout = [], response = []\<rparr>
       = (Returned, \<lparr>path = ''/'', headers = [(''Content-Length'', ''0'')],
            rfile = [], rfile_eof = True,
            stdout = [10 # latin1 ''===== POST REQUEST ======'', latin1 ''Path: /'',
                      latin1 ''Headers:'', latin1 ''  Content-Length: 0'', latin1 ''Body:'' @ [10]],
            response = [Send_response 200, Send_header ''Content-type'' ''text/plain'',
                        End_headers, Wfile_write ''POST request received'']\<rparr>)"
  by (simp add: do_POST_def int_defs rfile_read_def Let_def print_def header_line_def latin1_def
      send_defs)

text \<open>
  C4, as the code has it. When the bytes read as the body are not UTF-8, \<^verbatim>\<open>do_POST\<close>
  raises \<^verbatim>\<open>UnicodeDecodeError\<close> after it has printed the section marker, the path, the
  \<^verbatim>\<open>Headers:\<close> marker and the header lines. It prints no \<^verbatim>\<open>Body:\<close> line and nothing about
  the failure, and it sends nothing: only the input stream and the console have changed.
  The failure does not stop the listener: the server loop records the unchanged response
  for this connection and serves the following connections.
\<close>

theorem undecodable_body_raises:
  assumes "py_int (headers_get (headers self) ''Content-Length'' (PyInt 0)) = Inr n"
    and "rfile_read n self = Done (post_data, s0)"
    and "decode_utf8 post_data = None"
  shows "do_POST self = (Raised UnicodeDecodeError,
        self\<lparr>rfile := rfile s0,
             stdout := stdout self @
               [10 # latin1 ''===== POST REQUEST ======'', latin1 ''Path: '' @ latin1 (path self),
                latin1 ''Headers:''] @ map header_line (headers self)\<rparr>)
    \<and> serve_forever ((POST, self) # rest) out =
        (let r = serve_forever rest (out @
               [10 # latin1 ''===== POST REQUEST ======'', latin1 ''Path: '' @ latin1 (path self),
                latin1 ''Headers:''] @ map header_line (headers self))
         in r\<lparr>answers := response self # answers r\<rparr>)"
proof -
  have s0: "s0 = self\<lparr>rfile := rfile s0\<rparr>"
    using rfile_read_Done(1)[OF assms(2)] by simp
  have one: "do_POST self = (Raised UnicodeDecodeError,
        self\<lparr>rfile := rfile s0,
             stdout := stdout self @
               [10 # latin1 ''===== POST REQUEST ======'', latin1 ''Path: '' @ latin1 (path self),
                latin1 ''Headers:''] @ map header_line (headers self)\<rparr>)"
    using do_POST_decode_error[OF assms] by (subst (asm) s0) simp
  have cl: "py_int (headers_get (headers (self\<lparr>stdout := out\<rparr>)) ''Content-Length'' (PyInt 0)) = Inr n"
    using assms(1) by simp
  have "handle_one_request POST (self\<lparr>stdout := out\<rparr>) = (Raised UnicodeDecodeError,
        s0\<lparr>stdout := out @
               [10 # latin1 ''===== POST REQUEST ======'', latin1 ''Path: '' @ latin1 (path self),
                latin1 ''Headers:''] @ map header_line (headers self)\<rparr>)"
    using do_POST_decode_error[OF cl rfile_read_stdout[OF assms(2)] assms(3)]
    by (simp add: handle_one_request_def)
  moreover have "response s0 = response self"
    by (subst s0) simp
  ultimately have "serve_forever ((POST, self) # rest) out =
        (let r = serve_forever rest (out @
               [10 # latin1 ''===== POST REQUEST ======'', latin1 ''Path: '' @ latin1 (path self),
                latin1 ''Headers:''] @ map header_line (headers self))
         in r\<lparr>answers := response self # answers r\<rparr>)"
    by (simp add: Let_def)
  with one show ?thesis by simp
qed

text \<open>
  A POST whose one body byte is \<^verbatim>\<open>0xFF\<close>, followed on the next connection by a GET, which
  is answered.
\<close>

theorem undecodable_body_raises_witness:
  "py_int (headers_get [(''Content-Length'', ''1'')] ''Content-Length'' (PyInt 0)) = Inr 1
   \<and> decode_utf8 [CHR 0xFF] = None
   \<and> do_POST \<lparr>path = ''/'', headers = [(''Content-Length'', ''1'')], rfile = [CHR 0xFF],
         rfile_eof = False, stdout = [], response = []\<rparr>
       = (Raised UnicodeDecodeError, \<lparr>path = ''/'', headers = [(''Content-Length'', ''1'')],
            rfile = [], rfile_eof = False,
            stdout = [10 # latin1 ''===== POST REQUEST ======'', latin1 ''Path: /'',
                      latin1 ''Headers:'', latin1 ''  Content-Length: 1''],
            response = []\<rparr>)
   \<and> answers (serve_forever
         [(POST, \<lparr>path = ''/'', headers = [(''Content-Length'', ''1'')], rfile = [CHR 0xFF],
             rfile_eof = False, stdout = [], response = []\<rparr>),
          (GET, \<lparr>path = ''/status'', headers = [], rfile = [], rfile_eof = False, stdout = [],
             response = []\<rparr>)] [])
       = [[], [Send_response 200, Send_header ''Content-type'' ''text/plain'', End_headers,
               Wfile_write ''GET request received'']]"
proof -
  have cl: "py_int (headers_get (headers \<lparr>path = ''/'', headers = [(''Content-Length'', ''1'')],
      rfile = [CHR 0xFF], rfile_eof = False, stdout = [], response = []\<rparr>) ''Content-Length'' (PyInt 0))
      = Inr 1"
    by (simp add: int_defs)
  have rd: "rfile_read 1 \<lparr>path = ''/'', headers = [(''Content-Length'', ''1'')],
      rfile = [CHR 0xFF], rfile_eof = False, stdout = [], response = []\<rparr>
      = Done ([CHR 0xFF], \<lparr>path = ''/'', headers = [(''Content-Length'', ''1'')],
      rfile = [], rfile_eof = False, stdout = [], response = []\<rparr>)"
    by (simp add: rfile_read_def)
  have dec: "decode_utf8 [CHR 0xFF] = None"
    by (simp add: utf8_defs)
  show ?thesis
    using undecodable_body_raises[OF cl rd dec, of
        "[(GET, \<lparr>path = ''/status'', headers = [], rfile = [], rfile_eof = False, stdout = [],
             response = []\<rparr>)]" "[]"] cl dec
    by (simp add: handle_one_request_def do_GET_eq Let_def header_line_def latin1_def)
qed

text \<open>
  The claim as written fails: for the body \<^verbatim>\<open>0xFF\<close> the console holds the four ordinary
  lines and no diagnostic, and no status code, hence no 400-class response, has been
  sent.
\<close>

theorem undecodable_body_counterexample:
  "decode_utf8 [CHR 0xFF] = None
   \<and> do_POST \<lparr>path = ''/'', headers = [(''Content-Length'', ''1'')], rfile = [CHR 0xFF],
         rfile_eof = False, stdout = [], response = []\<rparr>
       = (Raised UnicodeDecodeError, \<lparr>path = ''/'', headers = [(''Content-Length'', ''1'')],
            rfile = [], rfile_eof = False,
            stdout = [10 # latin1 ''===== POST REQUEST ======'', latin1 ''Path: /'',
                      latin1 ''Headers:'', latin1 ''  Content-Length: 1''],
            response = []\<rparr>)
   \<and> status_codes (response (snd (do_POST \<lparr>path = ''/'', headers = [(''Content-Length'', ''1'')],
         rfile = [CHR 0xFF], rfile_eof = False, stdout = [], response = []\<rparr>))) = []"
  by (simp add: do_POST_def int_defs utf8_defs rfile_read_def Let_def print_def header_line_def
      latin1_def)

text \<open>
  C5. A POST request \<open>a\<close> without any \<^verbatim>\<open>Content-Length\<close> header behaves as a POST request
  \<open>b\<close> with \<^verbatim>\<open>Content-Length: 0\<close>: both return (the read does not block, whatever the
  stream holds), both read zero bytes and leave the stream as it was, both log the empty
  body, and both send the same response.
\<close>

theorem missing_content_length_is_zero:
  assumes "''content-length'' \<notin> set (map (lower \<circ> fst) (headers a))"
    and "headers_get (headers b) ''Content-Length'' (PyInt 0) = PyStr ''0''"
  shows "fst (do_POST a) = Returned \<and> fst (do_POST b) = Returned
    \<and> consumed a (snd (do_POST a)) = [] \<and> consumed b (snd (do_POST b)) = []
    \<and> rfile (snd (do_POST a)) = rfile a \<and> rfile (snd (do_POST b)) = rfile b
    \<and> last (stdout (snd (do_POST a))) = latin1 ''Body:'' @ [10]
    \<and> last (stdout (snd (do_POST b))) = latin1 ''Body:'' @ [10]
    \<and> answer a (snd (do_POST a)) = answer b (snd (do_POST b))"
proof -
  have "headers_get (headers a) ''Content-Length'' (PyInt 0) = PyInt 0"
    using assms(1) by (simp add: headers_get_missing lower_content_length)
  then have a: "py_int (headers_get (headers a) ''Content-Length'' (PyInt 0)) = Inr 0"
    by simp
  have b: "py_int (headers_get (headers b) ''Content-Length'' (PyInt 0)) = Inr 0"
    using assms(2) by (simp add: int_of_str_zero)
  show ?thesis
    by (simp add: do_POST_zero_length[OF a] do_POST_zero_length[OF b] answer_def consumed_def)
qed

text \<open>
  A request with a \<^verbatim>\<open>Host\<close> header only, on a connection that stays open with unread
  bytes, against the same request with \<^verbatim>\<open>content-length: 0\<close> added.
\<close>

theorem missing_content_length_is_zero_witness:
  "''content-length'' \<notin> set (map (lower \<circ> fst) [(''Host'', ''example'')])
   \<and> headers_get [(''Host'', ''example''), (''content-length'', ''0'')] ''Content-Length'' (PyInt 0)
       = PyStr ''0''
   \<and> do_POST \<lparr>path = ''/hook'', headers = [(''Host'', ''example'')], rfile = ''tail'',
         rfile_eof = False, stdout = [], response = []\<rparr>
       = (Returned, \<lparr>path = ''/hook'', headers = [(''Host'', ''example'')], rfile = ''tail'',
            rfile_eof = False,
            stdout = [10 # latin1 ''===== POST REQUEST ======'', latin1 ''Path: /hook'',
                      latin1 ''Headers:'', latin1 ''  Host: example'', latin1 ''Body:'' @ [10]],
            response = [Send_response 200, Send_header ''Content-type'' ''text/plain'',
                        End_headers, Wfile_write ''POST request received'']\<rparr>)
   \<and> answer \<lparr>path = ''/hook'', headers = [(''Host'', ''example'')], rfile = ''tail'',
         rfile_eof = False, stdout = [], response = []\<rparr>
       (snd (do_POST \<lparr>path = ''/hook'', headers = [(''Host'', ''example'')], rfile = ''tail'',
         rfile_eof = False, stdout = [], response = []\<rparr>))
     = answer \<lparr>path = ''/hook'', headers = [(''Host'', ''example''), (''content-length'', ''0'')],
         rfile = ''tail'', rfile_eof = False, stdout = [], response = []\<rparr>
       (snd (do_POST \<lparr>path = ''/hook'', headers = [(''Host'', ''example''), (''content-length'', ''0'')],
         rfile = ''tail'', rfile_eof = False, stdout = [], response = []\<rparr>))"
proof -
  have a: "''content-length'' \<notin> set (map (lower \<circ> fst) (headers \<lparr>path = ''/hook'',
      headers = [(''Host'', ''example'')], rfile = ''tail'', rfile_eof = False, stdout = [],
      response = []\<rparr>))"
    by (simp add: lower_defs)
  have b: "headers_get (headers \<lparr>path = ''/hook'',
      headers = [(''Host'', ''example''), (''content-length'', ''0'')], rfile = ''tail'',
      rfile_eof = False, stdout = [], response = []\<rparr>) ''Content-Length'' (PyInt 0) = PyStr ''0''"
    by (simp add: lower_defs)
  have run: "do_POST \<lparr>path = ''/hook'', headers = [(''Host'', ''example'')], rfile = ''tail'',
         rfile_eof = False, stdout = [], response = []\<rparr>
       = (Returned, \<lparr>path = ''/hook'', headers = [(''Host'', ''example'')], rfile = ''tail'',
            rfile_eof = False,
            stdout = [10 # latin1 ''===== POST REQUEST ======'', latin1 ''Path: /hook'',
                      latin1 ''Headers:'', latin1 ''  Host: example'', latin1 ''Body:'' @ [10]],
            response = [Send_response 200, Send_header ''Content-type'' ''text/plain'',
                        End_headers, Wfile_write ''POST request received'']\<rparr>)"
    by (simp add: do_POST_def lower_defs rfile_read_def Let_def
        print_def header_line_def latin1_def send_defs)
  show ?thesis
    using missing_content_length_is_zero[OF a b] a b run by simp
qed

text \<open>
  C6. What a request adds to the console, in this order: the section marker, the path
  line, the \<^verbatim>\<open>Headers:\<close> marker and one line per header in the order of the header list;
  a POST request that is handled to the end adds after them one more entry, the \<^verbatim>\<open>Body:\<close>
  marker, a line feed and the bytes it read decoded as UTF-8.
\<close>

theorem console_order:
  "stdout (snd (do_GET self)) = stdout self @
       [10 # latin1 ''===== GET REQUEST ======'', latin1 ''Path: '' @ latin1 (path self),
        latin1 ''Headers:''] @ map header_line (headers self)
   \<and> (fst (do_POST self) = Returned \<longrightarrow>
        (\<exists>body. decode_utf8 (consumed self (snd (do_POST self))) = Some body
           \<and> stdout (snd (do_POST self)) = stdout self @
               [10 # latin1 ''===== POST REQUEST ======'', latin1 ''Path: '' @ latin1 (path self),
                latin1 ''Headers:''] @ map header_line (headers self)
               @ [latin1 ''Body:'' @ 10 # body]))"
proof (cases self rule: do_POST_cases)
  case (int_error e)
  then show ?thesis by (simp add: do_GET_eq do_POST_int_error)
next
  case (read_error n e)
  then show ?thesis by (simp add: do_GET_eq do_POST_read_error)
next
  case (blocked n)
  then show ?thesis by (simp add: do_GET_eq do_POST_blocked)
next
  case (decode_error n d s0)
  then show ?thesis by (simp add: do_GET_eq do_POST_decode_error)
next
  case (returned n d s0 body)
  have "consumed self (snd (do_POST self)) = d"
    using consumed_read[OF returned(2)] by (simp add: do_POST_returned[OF returned])
  with returned(3) show ?thesis
    by (simp add: do_GET_eq do_POST_returned[OF returned])
qed

text \<open>
  The request \<^verbatim>\<open>POST /webhook\<close> with two headers and the body \<^verbatim>\<open>{"a":1}\<close>.
\<close>

theorem console_order_witness:
  \<open>do_POST \<lparr>path = ''/webhook'', headers = [(''Content-Length'', ''7''), (''X-Test'', ''1'')],
       rfile = ''{"a":1}'', rfile_eof = False, stdout = [], response = []\<rparr>
     = (Returned, \<lparr>path = ''/webhook'',
          headers = [(''Content-Length'', ''7''), (''X-Test'', ''1'')],
          rfile = [], rfile_eof = False,
          stdout = [10 # latin1 ''===== POST REQUEST ======'', latin1 ''Path: /webhook'',
                    latin1 ''Headers:'', latin1 ''  Content-Length: 7'', latin1 ''  X-Test: 1'',
                    latin1 ''Body:'' @ 10 # latin1 ''{"a":1}''],
          response = [Send_response 200, Send_header ''Content-type'' ''text/plain'',
                      End_headers, Wfile_write ''POST request received'']\<rparr>)
   \<and> (\<exists>body. decode_utf8 ''{"a":1}'' = Some body
         \<and> stdout (snd (do_POST \<lparr>path = ''/webhook'',
               headers = [(''Content-Length'', ''7''), (''X-Test'', ''1'')],
               rfile = ''{"a":1}'', rfile_eof = False, stdout = [], response = []\<rparr>))
           = [10 # latin1 ''===== POST REQUEST ======'', latin1 ''Path: /webhook'',
              latin1 ''Headers:'', latin1 ''  Content-Length: 7'', latin1 ''  X-Test: 1'',
              latin1 ''Body:'' @ 10 # body])\<close>
proof -
  have run: \<open>do_POST \<lparr>path = ''/webhook'', headers = [(''Content-Length'', ''7''), (''X-Test'', ''1'')],
       rfile = ''{"a":1}'', rfile_eof = False, stdout = [], response = []\<rparr>
     = (Returned, \<lparr>path = ''/webhook'',
          headers = [(''Content-Length'', ''7''), (''X-Test'', ''1'')],
          rfile = [], rfile_eof = False,
          stdout = [10 # latin1 ''===== POST REQUEST ======'', latin1 ''Path: /webhook'',
                    latin1 ''Headers:'', latin1 ''  Content-Length: 7'', latin1 ''  X-Test: 1'',
                    latin1 ''Body:'' @ 10 # latin1 ''{"a":1}''],
          response = [Send_response 200, Send_header ''Content-type'' ''text/plain'',
                      End_headers, Wfile_write ''POST request received'']\<rparr>)\<close>
    by (simp add: run_defs)
  show ?thesis
    using console_order[of \<open>\<lparr>path = ''/webhook'',
          headers = [(''Content-Length'', ''7''), (''X-Test'', ''1'')],
          rfile = ''{"a":1}'', rfile_eof = False, stdout = [], response = []\<rparr>\<close>]
    by (simp add: run consumed_def header_line_def latin1_def)
qed

text \<open>
  C7. The header lines a request logs, behind the three opening lines of its block, are
  the header list mapped entry by entry: as many lines as entries, the \<open>i\<close>-th line made
  of the name and the value of the \<open>i\<close>-th entry, so that a name that occurs twice is
  logged twice, each time with its own value. This holds of every GET request, and of
  every POST request whose \<^verbatim>\<open>Content-Length\<close> converts and whose body read returns
  (whether or not the body then decodes).
\<close>

theorem header_lines_in_order:
  "take (length (headers self)) (drop (length (stdout self) + 3) (stdout (snd (do_GET self))))
     = map header_line (headers self)
   \<and> (\<forall>i<length (headers self).
          stdout (snd (do_GET self)) ! (length (stdout self) + 3 + i)
          = latin1 ''  '' @ latin1 (fst (headers self ! i)) @ latin1 '': ''
            @ latin1 (snd (headers self ! i)))
   \<and> (py_int (headers_get (headers self) ''Content-Length'' (PyInt 0)) = Inr n
        \<and> rfile_read n self = Done (post_data, s0) \<longrightarrow>
        take (length (headers self)) (drop (length (stdout self) + 3)
          (stdout (snd (do_POST self)))) = map header_line (headers self)
        \<and> (\<forall>i<length (headers self).
              stdout (snd (do_POST self)) ! (length (stdout self) + 3 + i)
              = latin1 ''  '' @ latin1 (fst (headers self ! i)) @ latin1 '': ''
                @ latin1 (snd (headers self ! i))))"
proof -
  have "stdout (snd (do_GET self)) = stdout self @
       [10 # latin1 ''===== GET REQUEST ======'', latin1 ''Path: '' @ latin1 (path self),
        latin1 ''Headers:''] @ map header_line (headers self) @ []"
    by (simp add: do_GET_eq)
  note get = header_lines_of_log[OF this]
  have post: "take (length (headers self)) (drop (length (stdout self) + 3)
          (stdout (snd (do_POST self)))) = map header_line (headers self)
        \<and> (\<forall>i<length (headers self).
              stdout (snd (do_POST self)) ! (length (stdout self) + 3 + i)
              = latin1 ''  '' @ latin1 (fst (headers self ! i)) @ latin1 '': ''
                @ latin1 (snd (headers self ! i)))"
    if cl: "py_int (headers_get (headers self) ''Content-Length'' (PyInt 0)) = Inr n"
      and rd: "rfile_read n self = Done (post_data, s0)"
  proof (cases "decode_utf8 post_data")
    case None
    have "stdout (snd (do_POST self)) = stdout self @
       [10 # latin1 ''===== POST REQUEST ======'', latin1 ''Path: '' @ latin1 (path self),
        latin1 ''Headers:''] @ map header_line (headers self) @ []"
      by (simp add: do_POST_decode_error[OF cl rd None])
    from header_lines_of_log[OF this] show ?thesis .
  next
    case (Some body)
    have "stdout (snd (do_POST self)) = stdout self @
       [10 # latin1 ''===== POST REQUEST ======'', latin1 ''Path: '' @ latin1 (path self),
        latin1 ''Headers:''] @ map header_line (headers self) @ [latin1 ''Body:'' @ 10 # body]"
      by (simp add: do_POST_returned[OF cl rd Some])
    from header_lines_of_log[OF this] show ?thesis .
  qed
  from get post show ?thesis by blast
qed

text \<open>
  A POST request with the header \<^verbatim>\<open>X-A\<close> sent twice, around its \<^verbatim>\<open>Content-Length\<close>.
\<close>

theorem header_lines_in_order_witness:
  "py_int (headers_get [(''X-A'', ''1''), (''Content-Length'', ''2''), (''X-A'', ''2'')]
       ''Content-Length'' (PyInt 0)) = Inr 2
   \<and> rfile_read 2 \<lparr>path = ''/hook'', headers = [(''X-A'', ''1''), (''Content-Length'', ''2''), (''X-A'', ''2'')],
         rfile = ''hi'', rfile_eof = False, stdout = [], response = []\<rparr>
       = Done (''hi'', \<lparr>path = ''/hook'',
           headers = [(''X-A'', ''1''), (''Content-Length'', ''2''), (''X-A'', ''2'')],
           rfile = [], rfile_eof = False, stdout = [], response = []\<rparr>)
   \<and> take 3 (drop 3 (stdout (snd (do_POST \<lparr>path = ''/hook'', headers = [(''X-A'', ''1''), (''Content-Length'', ''2''), (''X-A'', ''2'')],
         rfile = ''hi'', rfile_eof = False, stdout = [], response = []\<rparr>))))
     = [latin1 ''  X-A: 1'', latin1 ''  Content-Length: 2'', latin1 ''  X-A: 2'']"
proof -
  have cl: "py_int (headers_get (headers \<lparr>path = ''/hook'', headers = [(''X-A'', ''1''), (''Content-Length'', ''2''), (''X-A'', ''2'')],
         rfile = ''hi'', rfile_eof = False, stdout = [], response = []\<rparr>) ''Content-Length'' (PyInt 0)) = Inr 2"
    by (simp add: int_defs lower_defs)
  have rd: "rfile_read 2 \<lparr>path = ''/hook'', headers = [(''X-A'', ''1''), (''Content-Length'', ''2''), (''X-A'', ''2'')],
         rfile = ''hi'', rfile_eof = False, stdout = [], response = []\<rparr>
       = Done (''hi'', \<lparr>path = ''/hook'',
           headers = [(''X-A'', ''1''), (''Content-Length'', ''2''), (''X-A'', ''2'')],
           rfile = [], rfile_eof = False, stdout = [], response = []\<rparr>)"
    by (simp add: rfile_read_def ssize_t_min_def)
  from header_lines_in_order[of "\<lparr>path = ''/hook'', headers = [(''X-A'', ''1''), (''Content-Length'', ''2''), (''X-A'', ''2'')],
         rfile = ''hi'', rfile_eof = False, stdout = [], response = []\<rparr>" 2 "''hi''"
      "\<lparr>path = ''/hook'',
           headers = [(''X-A'', ''1''), (''Content-Length'', ''2''), (''X-A'', ''2'')],
           rfile = [], rfile_eof = False, stdout = [], response = []\<rparr>"] cl rd
  show ?thesis
    by (simp add: header_line_def latin1_def numeral_3_eq_3)
qed




text \<open>
  C9. When the bytes read as the body of a POST request fail to decode, the method raises
  \<^verbatim>\<open>UnicodeDecodeError\<close> with the response exactly as it was before the call: the decoding
  comes before \<^verbatim>\<open>_set_headers\<close> and before the write of the body.
\<close>

theorem decode_failure_sends_nothing:
  assumes "py_int (headers_get (headers self) ''Content-Length'' (PyInt 0)) = Inr n"
    and "rfile_read n self = Done (post_data, s0)"
    and "decode_utf8 post_data = None"
  shows "fst (do_POST self) = Raised UnicodeDecodeError
    \<and> response (snd (do_POST self)) = response self
    \<and> answer self (snd (do_POST self)) = []"
  using rfile_read_Done(1)[OF assms(2)]
  by (simp add: do_POST_decode_error[OF assms] answer_def)

text \<open>
  A two-byte character cut in half by \<^verbatim>\<open>Content-Length: 1\<close>.
\<close>

theorem decode_failure_sends_nothing_witness:
  "py_int (headers_get [(''Content-Length'', ''1'')] ''Content-Length'' (PyInt 0)) = Inr 1
   \<and> decode_utf8 [CHR 0xC3] = None
   \<and> fst (do_POST \<lparr>path = ''/'', headers = [(''Content-Length'', ''1'')],
         rfile = [CHR 0xC3, CHR 0xA9], rfile_eof = True, stdout = [], response = []\<rparr>)
       = Raised UnicodeDecodeError
   \<and> response (snd (do_POST \<lparr>path = ''/'', headers = [(''Content-Length'', ''1'')],
         rfile = [CHR 0xC3, CHR 0xA9], rfile_eof = True, stdout = [], response = []\<rparr>)) = []"
proof -
  have cl: "py_int (headers_get (headers \<lparr>path = ''/'', headers = [(''Content-Length'', ''1'')],
         rfile = [CHR 0xC3, CHR 0xA9], rfile_eof = True, stdout = [], response = []\<rparr>)
       ''Content-Length'' (PyInt 0)) = Inr 1"
    by (simp add: int_defs)
  have rd: "rfile_read 1 \<lparr>path = ''/'', headers = [(''Content-Length'', ''1'')],
         rfile = [CHR 0xC3, CHR 0xA9], rfile_eof = True, stdout = [], response = []\<rparr>
       = Done ([CHR 0xC3], \<lparr>path = ''/'', headers = [(''Content-Length'', ''1'')],
         rfile = [CHR 0xA9], rfile_eof = True, stdout = [], response = []\<rparr>)"
    by (simp add: rfile_read_def)
  have dec: "decode_utf8 [CHR 0xC3] = None"
    by (simp add: utf8_defs)
  from decode_failure_sends_nothing[OF cl rd dec] cl dec show ?thesis
    by simp
qed

text \<open>
  C10, as the code has it. When the \<^verbatim>\<open>Content-Length\<close> header converts to a negative
  number \<open>n\<close>, the read is called with \<open>n\<close> itself, unclamped. For \<open>n = -1\<close> it reads to
  the end of the stream: if the client ends the stream, the method consumes all of it
  (not zero bytes) and logs all of it as the body, or raises if it does not decode; if
  the client never ends the stream, the method never returns. For \<open>n < -1\<close> the read
  refuses the count (\<^verbatim>\<open>ValueError\<close>; \<^verbatim>\<open>OverflowError\<close> below the smallest \<^verbatim>\<open>Py_ssize_t\<close>):
  the method raises with nothing read, nothing logged and nothing sent.
\<close>

theorem negative_content_length_unclamped:
  assumes "py_int (headers_get (headers self) ''Content-Length'' (PyInt 0)) = Inr n"
    and "n < 0"
  shows "(n = - 1 \<longrightarrow>
          rfile_read n self
            = (if rfile_eof self then Done (rfile self, self\<lparr>rfile := []\<rparr>) else Never)
          \<and> (rfile_eof self \<longrightarrow>
                consumed self (snd (do_POST self)) = rfile self
                \<and> rfile (snd (do_POST self)) = []
                \<and> (case decode_utf8 (rfile self) of
                     None \<Rightarrow> fst (do_POST self) = Raised UnicodeDecodeError
                   | Some body \<Rightarrow> fst (do_POST self) = Returned
                       \<and> last (stdout (snd (do_POST self))) = latin1 ''Body:'' @ 10 # body))
          \<and> (\<not> rfile_eof self \<longrightarrow> do_POST self = (Blocked, self)))
    \<and> (n < - 1 \<longrightarrow>
          rfile_read n self
            = Fails (if n < ssize_t_min then OverflowError else ValueError)
          \<and> do_POST self
            = (Raised (if n < ssize_t_min then OverflowError else ValueError), self))"
proof -
  have refused: "rfile_read n self = Fails (if n < ssize_t_min then OverflowError else ValueError)
      \<and> do_POST self = (Raised (if n < ssize_t_min then OverflowError else ValueError), self)"
    if "n < - 1"
  proof -
    have "rfile_read n self = Fails (if n < ssize_t_min then OverflowError else ValueError)"
      using that by (simp add: rfile_read_def)
    with do_POST_read_error[OF assms(1) this] show ?thesis by simp
  qed
  have rd: "rfile_read n self
      = (if rfile_eof self then Done (rfile self, self\<lparr>rfile := []\<rparr>) else Never)"
    if "n = - 1"
    using that by (simp add: rfile_read_def ssize_t_min_def)
  have blocked: "do_POST self = (Blocked, self)" if "n = - 1" "\<not> rfile_eof self"
    using that rd by (simp add: do_POST_blocked[OF assms(1)])
  have ended: "consumed self (snd (do_POST self)) = rfile self
          \<and> rfile (snd (do_POST self)) = []
          \<and> (case decode_utf8 (rfile self) of
               None \<Rightarrow> fst (do_POST self) = Raised UnicodeDecodeError
             | Some body \<Rightarrow> fst (do_POST self) = Returned
                 \<and> last (stdout (snd (do_POST self))) = latin1 ''Body:'' @ 10 # body)"
    if "n = - 1" and eof: "rfile_eof self"
  proof -
    from rd that have r: "rfile_read n self = Done (rfile self, self\<lparr>rfile := []\<rparr>)"
      by simp
    show ?thesis
    proof (cases "decode_utf8 (rfile self)")
      case None
      then show ?thesis
        by (simp add: do_POST_decode_error[OF assms(1) r] consumed_def)
    next
      case (Some body)
      then show ?thesis
        by (simp add: do_POST_returned[OF assms(1) r] consumed_def)
    qed
  qed
  from refused rd blocked ended show ?thesis by blast
qed

text \<open>
  \<^verbatim>\<open>Content-Length: -1\<close> with five bytes on the stream, ended and not ended, and
  \<^verbatim>\<open>Content-Length: -2\<close> with the same stream.
\<close>

theorem negative_content_length_unclamped_witness:
  "py_int (headers_get [(''Content-Length'', ''-1'')] ''Content-Length'' (PyInt 0)) = Inr (- 1)
   \<and> py_int (headers_get [(''Content-Length'', ''-2'')] ''Content-Length'' (PyInt 0)) = Inr (- 2)
   \<and> fst (do_POST \<lparr>path = ''/'', headers = [(''Content-Length'', ''-1'')],
         rfile = ''hello'', rfile_eof = True, stdout = [], response = []\<rparr>) = Returned
   \<and> consumed \<lparr>path = ''/'', headers = [(''Content-Length'', ''-1'')],
         rfile = ''hello'', rfile_eof = True, stdout = [], response = []\<rparr>
       (snd (do_POST \<lparr>path = ''/'', headers = [(''Content-Length'', ''-1'')],
         rfile = ''hello'', rfile_eof = True, stdout = [], response = []\<rparr>)) = ''hello''
   \<and> last (stdout (snd (do_POST \<lparr>path = ''/'', headers = [(''Content-Length'', ''-1'')],
         rfile = ''hello'', rfile_eof = True, stdout = [], response = []\<rparr>)))
       = latin1 ''Body:'' @ 10 # latin1 ''hello''
   \<and> do_POST \<lparr>path = ''/'', headers = [(''Content-Length'', ''-1'')],
         rfile = ''hello'', rfile_eof = False, stdout = [], response = []\<rparr>
       = (Blocked, \<lparr>path = ''/'', headers = [(''Content-Length'', ''-1'')],
         rfile = ''hello'', rfile_eof = False, stdout = [], response = []\<rparr>)
   \<and> do_POST \<lparr>path = ''/'', headers = [(''Content-Length'', ''-2'')],
         rfile = ''hello'', rfile_eof = True, stdout = [], response = []\<rparr>
       = (Raised ValueError, \<lparr>path = ''/'', headers = [(''Content-Length'', ''-2'')],
         rfile = ''hello'', rfile_eof = True, stdout = [], response = []\<rparr>)"
proof -
  have cl: "py_int (headers_get (headers \<lparr>path = ''/'', headers = [(''Content-Length'', ''-1'')],
         rfile = ''hello'', rfile_eof = e, stdout = [], response = []\<rparr>)
       ''Content-Length'' (PyInt 0)) = Inr (- 1)" for e
    by (simp add: int_defs)
  have cl2: "py_int (headers_get (headers \<lparr>path = ''/'', headers = [(''Content-Length'', ''-2'')],
         rfile = ''hello'', rfile_eof = True, stdout = [], response = []\<rparr>)
       ''Content-Length'' (PyInt 0)) = Inr (- 2)"
    by (simp add: int_defs)
  have dec: "decode_utf8 ''hello'' = Some (latin1 ''hello'')"
    by (simp add: latin1_def)
  from negative_content_length_unclamped[OF cl[of True]]
    negative_content_length_unclamped[OF cl[of False]]
    negative_content_length_unclamped[OF cl2] cl[of True] cl2 dec
  show ?thesis by (simp add: ssize_t_min_def)
qed

text \<open>
  The claim as written fails: with \<^verbatim>\<open>Content-Length: -2\<close> and five bytes on a stream that
  has ended, the method raises at the read; it has consumed none of the five bytes and
  logged and sent nothing.
\<close>

theorem negative_content_length_counterexample:
  "py_int (headers_get [(''Content-Length'', ''-2'')] ''Content-Length'' (PyInt 0)) = Inr (- 2)
   \<and> do_POST \<lparr>path = ''/'', headers = [(''Content-Length'', ''-2'')],
         rfile = ''hello'', rfile_eof = True, stdout = [], response = []\<rparr>
       = (Raised ValueError, \<lparr>path = ''/'', headers = [(''Content-Length'', ''-2'')],
         rfile = ''hello'', rfile_eof = True, stdout = [], response = []\<rparr>)"
  by (simp add: do_POST_def int_defs rfile_read_def ssize_t_min_def)

end
